theory Spec2Isabelle
  imports Main
begin

section \<open>The CSS selector builder of \<^verbatim>\<open>src/06-objects-tasks.js\<close>\<close>

subsection \<open>JavaScript values\<close>

text \<open>
  The fields of a \<^verbatim>\<open>Selector\<close> hold strings, or \<^verbatim>\<open>undefined\<close> when the constructor is
  called with fewer than two arguments (as \<^verbatim>\<open>combine\<close> and \<^verbatim>\<open>stringify\<close> of the facade do).
\<close>

datatype jsval = Undefined | Str string

text \<open>Conversion to a string, as \<^verbatim>\<open>+\<close> on a string and template literals perform it.\<close>

fun ToString :: "jsval \<Rightarrow> string" where
  "ToString Undefined = ''undefined''"
| "ToString (Str s) = s"

text \<open>\<^verbatim>\<open>Array.prototype.indexOf\<close>: the first index holding the element, \<open>-1\<close> when absent.\<close>

fun indexOf :: "'a list \<Rightarrow> 'a \<Rightarrow> int" where
  "indexOf [] x = - 1"
| "indexOf (y # ys) x =
     (if y = x then 0
      else (let i = indexOf ys x in if i < 0 then - 1 else i + 1))"

text \<open>\<^verbatim>\<open>Array.prototype.slice(start, end)\<close>, with the clamping of negative and large indices.\<close>

definition slice :: "'a list \<Rightarrow> int \<Rightarrow> int \<Rightarrow> 'a list" where
  "slice xs start fin =
     (let len = int (length xs);
          k = (if start < 0 then max (len + start) 0 else min start len);
          final = (if fin < 0 then max (len + fin) 0 else min fin len)
      in take (nat (final - k)) (drop (nat k) xs))"

subsection \<open>The class \<^verbatim>\<open>Selector\<close>\<close>

record Selector =
  template :: jsval
  selectors :: "jsval set"
  order :: "jsval list"

text \<open>Both failures are a plain \<^verbatim>\<open>Error\<close> carrying a message.\<close>

datatype error = Error string

definition DuplicateFragmentError :: error where
  "DuplicateFragmentError =
     Error ''Element, id and pseudo-element should not occur more then one time inside the selector''"

definition OrderViolationError :: error where
  "OrderViolationError =
     Error ''Selector parts should be arranged in the following order: element, id, class, attribute, pseudo-class, pseudo-element''"

definition Selector_constructor :: "jsval \<Rightarrow> jsval \<Rightarrow> Selector" where
  "Selector_constructor start startSelector =
     \<lparr> template = start,
       selectors = {startSelector},
       order = [Str ''element'', Str ''id'', Str ''class'', Str ''attr'',
                Str ''pseudoClass'', Str ''pseudoElement''] \<rparr>"

definition orderIsCorrect :: "Selector \<Rightarrow> jsval \<Rightarrow> bool" where
  "orderIsCorrect this currentSelector =
     (let indexInOrder = indexOf (order this) currentSelector;
          nextSelectors = slice (order this) (indexInOrder + 1) (int (length (order this)))
      in \<not> list_ex (\<lambda>selector. selector \<in> selectors this) nextSelectors)"

text \<open>
  A method either throws or returns \<^verbatim>\<open>this\<close>; in both cases the object is left in some
  state, which the outcome carries.
\<close>

datatype outcome = Throw error Selector | Return Selector

definition Selector_element :: "string \<Rightarrow> Selector \<Rightarrow> outcome" where
  "Selector_element val this =
     (if Str ''element'' \<in> selectors this then Throw DuplicateFragmentError this
      else if \<not> orderIsCorrect this (Str ''element'') then Throw OrderViolationError this
      else Return (this\<lparr>template := Str (ToString (template this) @ val)\<rparr>))"

definition Selector_id :: "string \<Rightarrow> Selector \<Rightarrow> outcome" where
  "Selector_id val this =
     (if Str ''id'' \<in> selectors this then Throw DuplicateFragmentError this
      else
        (let this1 = this\<lparr>selectors := insert (Str ''id'') (selectors this)\<rparr> in
         if \<not> orderIsCorrect this1 (Str ''id'') then Throw OrderViolationError this1
         else Return (this1\<lparr>template := Str (ToString (template this1) @ ''#'' @ val)\<rparr>)))"

definition Selector_class :: "string \<Rightarrow> Selector \<Rightarrow> outcome" where
  "Selector_class val this =
     (if \<not> orderIsCorrect this (Str ''class'') then Throw OrderViolationError this
      else Return (this\<lparr>template := Str (ToString (template this) @ ''.'' @ val)\<rparr>))"

definition Selector_attr :: "string \<Rightarrow> Selector \<Rightarrow> outcome" where
  "Selector_attr val this =
     (if \<not> orderIsCorrect this (Str ''attr'') then Throw OrderViolationError this
      else Return (this\<lparr>template := Str (ToString (template this) @ ''['' @ val @ '']'')\<rparr>))"

definition Selector_pseudoClass :: "string \<Rightarrow> Selector \<Rightarrow> outcome" where
  "Selector_pseudoClass val this =
     (if \<not> orderIsCorrect this (Str ''pseudoClass'') then Throw OrderViolationError this
      else Return (this\<lparr>template := Str (ToString (template this) @ '':'' @ val)\<rparr>))"

definition Selector_pseudoElement :: "string \<Rightarrow> Selector \<Rightarrow> outcome" where
  "Selector_pseudoElement val this =
     (if Str ''pseudoElement'' \<in> selectors this then Throw DuplicateFragmentError this
      else
        (let this1 = this\<lparr>selectors := insert (Str ''pseudoElement'') (selectors this)\<rparr> in
         Return (this1\<lparr>template := Str (ToString (template this1) @ ''::'' @ val)\<rparr>)))"

definition Selector_stringify :: "Selector \<Rightarrow> jsval" where
  "Selector_stringify this = template this"

subsection \<open>Objects and references\<close>

text \<open>
  Builders are objects that several variables may refer to, and the chained methods
  mutate them in place. The store is the list of the objects allocated so far; a
  reference is an index into it, and \<^verbatim>\<open>new\<close> appends.
\<close>

type_synonym ref = nat
type_synonym heap = "Selector list"

definition new :: "Selector \<Rightarrow> heap \<Rightarrow> ref \<times> heap" where
  "new obj h = (length h, h @ [obj])"

text \<open>
  Calling a method on a reference: the object is updated in the store whether the method
  throws or returns, and a returning method yields \<^verbatim>\<open>this\<close>, the same reference.
\<close>

definition invoke :: "(Selector \<Rightarrow> outcome) \<Rightarrow> ref \<Rightarrow> heap \<Rightarrow> (error + ref) \<times> heap" where
  "invoke m r h =
     (case m (h ! r) of
        Throw e this' \<Rightarrow> (Inl e, h[r := this'])
      | Return this' \<Rightarrow> (Inr r, h[r := this']))"

text \<open>A chain \<^verbatim>\<open>x.m1(..).m2(..)\<close>: each call is made on what the previous one returned,
  and the first exception ends the chain.\<close>

fun chain :: "(Selector \<Rightarrow> outcome) list \<Rightarrow> ref \<Rightarrow> heap \<Rightarrow> (error + ref) \<times> heap" where
  "chain [] r h = (Inr r, h)"
| "chain (m # ms) r h =
     (case invoke m r h of
        (Inl e, h') \<Rightarrow> (Inl e, h')
      | (Inr r', h') \<Rightarrow> chain ms r' h')"

definition stringify :: "ref \<Rightarrow> heap \<Rightarrow> jsval \<times> heap" where
  "stringify r h = (Selector_stringify (h ! r), h)"

subsection \<open>The facade \<^verbatim>\<open>cssSelectorBuilder\<close>\<close>

definition cssSelectorBuilder_element :: "string \<Rightarrow> heap \<Rightarrow> ref \<times> heap" where
  "cssSelectorBuilder_element val h = new (Selector_constructor (Str val) (Str ''element'')) h"

definition cssSelectorBuilder_id :: "string \<Rightarrow> heap \<Rightarrow> ref \<times> heap" where
  "cssSelectorBuilder_id val h = new (Selector_constructor (Str (''#'' @ val)) (Str ''id'')) h"

definition cssSelectorBuilder_class :: "string \<Rightarrow> heap \<Rightarrow> ref \<times> heap" where
  "cssSelectorBuilder_class val h = new (Selector_constructor (Str (''.'' @ val)) (Str ''class'')) h"

definition cssSelectorBuilder_attr :: "string \<Rightarrow> heap \<Rightarrow> ref \<times> heap" where
  "cssSelectorBuilder_attr val h =
     new (Selector_constructor (Str (''['' @ val @ '']'')) (Str ''attr'')) h"

definition cssSelectorBuilder_pseudoClass :: "string \<Rightarrow> heap \<Rightarrow> ref \<times> heap" where
  "cssSelectorBuilder_pseudoClass val h =
     new (Selector_constructor (Str ('':'' @ val)) (Str ''pseudoClass'')) h"

definition cssSelectorBuilder_pseudoElement :: "string \<Rightarrow> heap \<Rightarrow> ref \<times> heap" where
  "cssSelectorBuilder_pseudoElement val h =
     new (Selector_constructor (Str (''::'' @ val)) (Str ''pseudoElement'')) h"

definition cssSelectorBuilder_combine :: "ref \<Rightarrow> string \<Rightarrow> ref \<Rightarrow> heap \<Rightarrow> ref \<times> heap" where
  "cssSelectorBuilder_combine selector1 combinator selector2 h =
     new (Selector_constructor
            (Str (ToString (template (h ! selector1)) @ '' '' @ combinator @ '' ''
                  @ ToString (template (h ! selector2))))
            Undefined) h"

definition cssSelectorBuilder_stringify :: "heap \<Rightarrow> jsval \<times> heap" where
  "cssSelectorBuilder_stringify h =
     (case new (Selector_constructor Undefined Undefined) h of
        (r, h') \<Rightarrow> (template (h' ! r), h'))"

subsection \<open>Client expressions\<close>

text \<open>
  \<^verbatim>\<open>builder.f(..).m1(..).m2(..)\<close>: a facade call followed by a chain on the object it
  created, and \<^verbatim>\<open>.stringify()\<close> at the end of an expression that may have thrown.
\<close>

definition chain_from ::
  "(heap \<Rightarrow> ref \<times> heap) \<Rightarrow> (Selector \<Rightarrow> outcome) list \<Rightarrow> heap \<Rightarrow> (error + ref) \<times> heap" where
  "chain_from f ms h = (case f h of (r, h') \<Rightarrow> chain ms r h')"

definition stringify_result :: "(error + ref) \<times> heap \<Rightarrow> error + jsval" where
  "stringify_result p =
     (case p of (Inl e, h) \<Rightarrow> Inl e | (Inr r, h) \<Rightarrow> Inr (fst (stringify r h)))"

text \<open>
  The field \<^verbatim>\<open>order\<close> is assigned by the constructor only, so every object of the class
  satisfies the following.
\<close>

definition has_order :: "Selector \<Rightarrow> bool" where
  "has_order this \<longleftrightarrow>
     order this = [Str ''element'', Str ''id'', Str ''class'', Str ''attr'',
                   Str ''pseudoClass'', Str ''pseudoElement'']"

section \<open>Properties\<close>

subsection \<open>The order check\<close>

lemma has_order_constructor: "has_order (Selector_constructor s k)"
  by (simp add: has_order_def Selector_constructor_def)

text \<open>What \<^verbatim>\<open>orderIsCorrect\<close> looks at, for each of the kinds it is called with.\<close>

lemma orderIsCorrect_element:
  "has_order this \<Longrightarrow> orderIsCorrect this (Str ''element'') \<longleftrightarrow>
     Str ''id'' \<notin> selectors this \<and> Str ''class'' \<notin> selectors this
     \<and> Str ''attr'' \<notin> selectors this \<and> Str ''pseudoClass'' \<notin> selectors this
     \<and> Str ''pseudoElement'' \<notin> selectors this"
  by (simp add: has_order_def orderIsCorrect_def slice_def)

lemma orderIsCorrect_id:
  "has_order this \<Longrightarrow> orderIsCorrect this (Str ''id'') \<longleftrightarrow>
     Str ''class'' \<notin> selectors this \<and> Str ''attr'' \<notin> selectors this
     \<and> Str ''pseudoClass'' \<notin> selectors this \<and> Str ''pseudoElement'' \<notin> selectors this"
  by (simp add: has_order_def orderIsCorrect_def slice_def)

lemma orderIsCorrect_class:
  "has_order this \<Longrightarrow> orderIsCorrect this (Str ''class'') \<longleftrightarrow>
     Str ''attr'' \<notin> selectors this \<and> Str ''pseudoClass'' \<notin> selectors this
     \<and> Str ''pseudoElement'' \<notin> selectors this"
  by (simp add: has_order_def orderIsCorrect_def slice_def)

lemma orderIsCorrect_attr:
  "has_order this \<Longrightarrow> orderIsCorrect this (Str ''attr'') \<longleftrightarrow>
     Str ''pseudoClass'' \<notin> selectors this \<and> Str ''pseudoElement'' \<notin> selectors this"
  by (simp add: has_order_def orderIsCorrect_def slice_def)

lemma orderIsCorrect_pseudoClass:
  "has_order this \<Longrightarrow> orderIsCorrect this (Str ''pseudoClass'') \<longleftrightarrow>
     Str ''pseudoElement'' \<notin> selectors this"
  by (simp add: has_order_def orderIsCorrect_def slice_def)

text \<open>The unfolding that evaluates a client expression on concrete strings.\<close>

lemmas run_defs =
  chain_from_def stringify_result_def stringify_def Selector_stringify_def
  invoke_def new_def Selector_constructor_def orderIsCorrect_def slice_def
  cssSelectorBuilder_element_def cssSelectorBuilder_id_def cssSelectorBuilder_class_def
  cssSelectorBuilder_attr_def cssSelectorBuilder_pseudoClass_def
  cssSelectorBuilder_pseudoElement_def cssSelectorBuilder_combine_def
  cssSelectorBuilder_stringify_def
  Selector_element_def Selector_id_def Selector_class_def Selector_attr_def
  Selector_pseudoClass_def Selector_pseudoElement_def

subsection \<open>Order of the fragments\<close>

text \<open>
  C1. The claim: a fragment of kind K is accepted only if no fragment of a greater kind has
  been appended to the instance, and every out-of-order append raises the order error.
  The instance methods \<^verbatim>\<open>element\<close>, \<^verbatim>\<open>class\<close>, \<^verbatim>\<open>attr\<close> and \<^verbatim>\<open>pseudoClass\<close> never add their kind
  to \<^verbatim>\<open>this.selectors\<close>, so the check does not see what they appended:
  \<^verbatim>\<open>builder.element('e').class('c').id('i')\<close> appends an id after a class and returns, with
  the text \<^verbatim>\<open>e.c#i\<close>. When the class is the fragment the facade started with, it is
  recorded, and \<^verbatim>\<open>builder.class('c').id('i')\<close> throws as the claim says.
\<close>

theorem C1_id_after_class_accepted:
  "stringify_result
     (chain_from (cssSelectorBuilder_element ''e'') [Selector_class ''c'', Selector_id ''i''] [])
     = Inr (Str ''e.c#i'')
   \<and> stringify_result (chain_from (cssSelectorBuilder_class ''c'') [Selector_id ''i''] [])
     = Inl OrderViolationError"
  by (simp add: run_defs)

text \<open>
  C2. The claim: class, attr, class is rejected with the order error, and class, class, attr
  is accepted. The second half holds. The first does not: the instance method \<^verbatim>\<open>attr\<close>
  does not record its kind, so \<^verbatim>\<open>builder.class('a').attr('b').class('c')\<close> returns, with the
  text \<^verbatim>\<open>.a[b].c\<close>.
\<close>

theorem C2_class_attr_class_accepted:
  "stringify_result
     (chain_from (cssSelectorBuilder_class ''a'') [Selector_attr ''b'', Selector_class ''c''] [])
     = Inr (Str ''.a[b].c'')
   \<and> stringify_result
     (chain_from (cssSelectorBuilder_class ''a'') [Selector_class ''b'', Selector_attr ''c''] [])
     = Inr (Str ''.a.b[c]'')"
  by (simp add: run_defs)

subsection \<open>Elements appended to a combined selector\<close>

lemma element_unrecorded:
  "has_order this \<Longrightarrow> selectors this = {Undefined} \<Longrightarrow>
   Selector_element val this = Return (this\<lparr>template := Str (ToString (template this) @ val)\<rparr>)"
  by (simp add: Selector_element_def orderIsCorrect_element)

lemma chain_element:
  "r < length h \<Longrightarrow> has_order (h ! r) \<Longrightarrow> selectors (h ! r) = {Undefined} \<Longrightarrow>
   template (h ! r) = Str t \<Longrightarrow>
   chain (map Selector_element vs) r h
     = (Inr r, h[r := (h ! r)\<lparr>template := Str (t @ concat vs)\<rparr>])"
proof (induction vs arbitrary: h t)
  case Nil
  have "(h ! r)\<lparr>template := template (h ! r)\<rparr> = h ! r" by simp
  with Nil have "(h ! r)\<lparr>template := Str t\<rparr> = h ! r" by simp
  then show ?case by simp
next
  case (Cons v vs)
  let ?h1 = "h[r := (h ! r)\<lparr>template := Str (t @ v)\<rparr>]"
  have step: "invoke (Selector_element v) r h = (Inr r, ?h1)"
    using Cons.prems by (simp add: invoke_def element_unrecorded)
  have "chain (map Selector_element vs) r ?h1
          = (Inr r, ?h1[r := (?h1 ! r)\<lparr>template := Str ((t @ v) @ concat vs)\<rparr>])"
    using Cons.prems by (intro Cons.IH) (simp_all add: has_order_def)
  then show ?case using step Cons.prems by simp
qed

text \<open>
  C10. On the instance that \<^verbatim>\<open>combine\<close> of the facade returns, any sequence of calls of the
  instance method \<^verbatim>\<open>element\<close> returns without an error, each call appending its value
  verbatim: the text is that of the combination followed by the values in call order,
  and \<^verbatim>\<open>'element'\<close> is in the set of the instance neither before nor after the calls.
\<close>

theorem C10_element_repeatable_after_combine:
  "cssSelectorBuilder_combine a c b h = (r, h1) \<Longrightarrow>
   chain (map Selector_element vs) r h1 =
     (Inr r, h1[r := (h1 ! r)\<lparr>template :=
        Str (ToString (template (h ! a)) @ '' '' @ c @ '' '' @ ToString (template (h ! b))
             @ concat vs)\<rparr>])
   \<and> selectors (h1 ! r) = {Undefined}
   \<and> Str ''element'' \<notin> selectors (snd (chain (map Selector_element vs) r h1) ! r)"
proof -
  assume comb: "cssSelectorBuilder_combine a c b h = (r, h1)"
  let ?t = "ToString (template (h ! a)) @ '' '' @ c @ '' '' @ ToString (template (h ! b))"
  let ?obj = "Selector_constructor (Str ?t) Undefined"
  from comb have r: "r = length h" and h1: "h1 = h @ [?obj]"
    by (simp_all add: cssSelectorBuilder_combine_def new_def)
  have obj: "h1 ! r = ?obj" using r h1 by simp
  have sel: "selectors (h1 ! r) = {Undefined}"
    using obj by (simp add: Selector_constructor_def)
  have run: "chain (map Selector_element vs) r h1
               = (Inr r, h1[r := (h1 ! r)\<lparr>template := Str (?t @ concat vs)\<rparr>])"
  proof (rule chain_element)
    show "r < length h1" using r h1 by simp
    show "has_order (h1 ! r)" using obj by (simp add: has_order_constructor)
    show "selectors (h1 ! r) = {Undefined}" by (rule sel)
    show "template (h1 ! r) = Str ?t" using obj by (simp add: Selector_constructor_def)
  qed
  have "r < length h1" using r h1 by simp
  then have "Str ''element'' \<notin> selectors (snd (chain (map Selector_element vs) r h1) ! r)"
    using run sel by simp
  then show ?thesis using run sel by simp
qed

text \<open>
  \<^verbatim>\<open>combine(element('div'), '>', element('p')).element('x').element('y')\<close>.
\<close>

theorem C10_element_repeatable_after_combine_witness:
  "cssSelectorBuilder_combine 0 ''>'' 1
     [Selector_constructor (Str ''div'') (Str ''element''),
      Selector_constructor (Str ''p'') (Str ''element'')]
     = (2, [Selector_constructor (Str ''div'') (Str ''element''),
            Selector_constructor (Str ''p'') (Str ''element''),
            Selector_constructor (Str ''div > p'') Undefined])
   \<and> chain (map Selector_element [''x'', ''y'']) 2
       [Selector_constructor (Str ''div'') (Str ''element''),
        Selector_constructor (Str ''p'') (Str ''element''),
        Selector_constructor (Str ''div > p'') Undefined]
     = (Inr 2, [Selector_constructor (Str ''div'') (Str ''element''),
                Selector_constructor (Str ''p'') (Str ''element''),
                Selector_constructor (Str ''div > pxy'') Undefined])"
proof -
  let ?h = "[Selector_constructor (Str ''div'') (Str ''element''),
             Selector_constructor (Str ''p'') (Str ''element'')]"
  let ?h1 = "?h @ [Selector_constructor (Str ''div > p'') Undefined]"
  have comb: "cssSelectorBuilder_combine 0 ''>'' 1 ?h = (2, ?h1)"
    by (simp add: cssSelectorBuilder_combine_def new_def Selector_constructor_def)
  show ?thesis
    using comb
      C10_element_repeatable_after_combine [OF comb, of "[''x'', ''y'']"]
    by (simp add: Selector_constructor_def)
qed

subsection \<open>Fragments that may occur once\<close>

text \<open>
  \<^verbatim>\<open>id\<close> and \<^verbatim>\<open>pseudoElement\<close> record their kind when they return, so a second call on the
  same object throws, whatever happened in between to the text. \<^verbatim>\<open>element\<close> relies on the
  facade having recorded the kind.
\<close>

lemma id_twice:
  "Selector_id v this = Return this' \<Longrightarrow>
   Selector_id w this' = Throw DuplicateFragmentError this'"
  by (auto simp add: Selector_id_def Let_def split: if_splits)

lemma pseudoElement_twice:
  "Selector_pseudoElement v this = Return this' \<Longrightarrow>
   Selector_pseudoElement w this' = Throw DuplicateFragmentError this'"
  by (auto simp add: Selector_pseudoElement_def Let_def split: if_splits)

lemma element_twice_from_facade:
  "stringify_result (chain_from (cssSelectorBuilder_element v) [Selector_element w] h)
     = Inl DuplicateFragmentError"
  by (simp add: chain_from_def stringify_result_def cssSelectorBuilder_element_def new_def
      invoke_def Selector_element_def Selector_constructor_def)

text \<open>
  C3. The claim: on every instance, \<^verbatim>\<open>element\<close>, \<^verbatim>\<open>id\<close> and \<^verbatim>\<open>pseudoElement\<close> throw the
  duplicate error when their kind was appended before. For \<^verbatim>\<open>element\<close> on an instance made
  by \<^verbatim>\<open>combine\<close> it fails: with \<^verbatim>\<open>a = builder.element('a')\<close> and \<^verbatim>\<open>b = builder.element('b')\<close>,
  \<^verbatim>\<open>builder.combine(a, '+', b).element('x').element('y')\<close> appends two elements and returns,
  with the text \<^verbatim>\<open>a + bxy\<close>.
\<close>

theorem C3_element_twice_after_combine:
  "(case cssSelectorBuilder_element ''a'' [] of (a, h1) \<Rightarrow>
    case cssSelectorBuilder_element ''b'' h1 of (b, h2) \<Rightarrow>
      stringify_result
        (chain_from (cssSelectorBuilder_combine a ''+'' b)
           [Selector_element ''x'', Selector_element ''y''] h2))
   = Inr (Str ''a + bxy'')"
  by (simp add: run_defs)

subsection \<open>The state of the object after an exception\<close>

lemma throw_unchanged:
  "m \<in> {Selector_element v, Selector_class v, Selector_attr v, Selector_pseudoClass v,
        Selector_pseudoElement v} \<Longrightarrow> m this = Throw e this' \<Longrightarrow> this' = this"
  by (auto simp add: Selector_element_def Selector_class_def Selector_attr_def
      Selector_pseudoClass_def Selector_pseudoElement_def Let_def split: if_splits)

lemma id_throw:
  "Selector_id v this = Throw e this' \<Longrightarrow>
   template this' = template this
   \<and> (e = DuplicateFragmentError \<longrightarrow> this' = this)
   \<and> (this' \<noteq> this \<longrightarrow> selectors this' = insert (Str ''id'') (selectors this))"
  by (auto simp add: Selector_id_def Let_def DuplicateFragmentError_def
      OrderViolationError_def split: if_splits)

text \<open>
  C4. The claim: when an instance method throws, the text and the set of the instance are
  as before the call. \<^verbatim>\<open>id\<close> adds \<^verbatim>\<open>'id'\<close> to the set before it checks the order: with
  \<^verbatim>\<open>s = builder.class('a')\<close>, the call \<^verbatim>\<open>s.id('b')\<close> throws the order error and leaves the set
  of \<^verbatim>\<open>s\<close> changed from \<^verbatim>\<open>{'class'}\<close> to \<^verbatim>\<open>{'class', 'id'}\<close> (the text is still \<^verbatim>\<open>.a\<close>), so
  that a second \<^verbatim>\<open>s.id('b')\<close> throws the duplicate error although no id was appended.
\<close>

theorem C4_id_records_before_order_check:
  "(case cssSelectorBuilder_class ''a'' [] of (r, h) \<Rightarrow>
    case invoke (Selector_id ''b'') r h of (res, h') \<Rightarrow>
      (res, selectors (h ! r), selectors (h' ! r), fst (stringify r h'),
       fst (invoke (Selector_id ''b'') r h')))
   = (Inl OrderViolationError, {Str ''class''}, {Str ''class'', Str ''id''}, Str ''.a'',
      Inl DuplicateFragmentError)"
  by (simp add: run_defs insert_commute)

subsection \<open>Rendering\<close>

text \<open>
  C5. The claim: \<^verbatim>\<open>stringify()\<close> of the facade returns the empty string. It returns the
  \<^verbatim>\<open>template\<close> of \<^verbatim>\<open>new Selector()\<close>, which the constructor set to its missing first
  argument: \<^verbatim>\<open>undefined\<close>, not a string.
\<close>

theorem C5_facade_stringify_undefined:
  "fst (cssSelectorBuilder_stringify h) = Undefined
   \<and> fst (cssSelectorBuilder_stringify h) \<noteq> Str ''''"
  by (simp add: cssSelectorBuilder_stringify_def new_def Selector_constructor_def)

text \<open>
  C6. For every string \<open>v\<close>, the object a facade method creates renders as the fragment
  with its prefix: \<open>v\<close>, \<open>#v\<close>, \<open>.v\<close>, \<open>[v]\<close>, \<open>:v\<close>, \<open>::v\<close>. An instance method that returns
  has appended its prefixed fragment to the text the object had, so a chain renders the
  fragments in call order: \<^verbatim>\<open>builder.id('main').class('container').class('editable')\<close>
  renders as \<^verbatim>\<open>#main.container.editable\<close>.
\<close>

theorem C6_fragments_rendered:
  "stringify_result (chain_from (cssSelectorBuilder_element v) [] h) = Inr (Str v)
   \<and> stringify_result (chain_from (cssSelectorBuilder_id v) [] h) = Inr (Str (''#'' @ v))
   \<and> stringify_result (chain_from (cssSelectorBuilder_class v) [] h) = Inr (Str (''.'' @ v))
   \<and> stringify_result (chain_from (cssSelectorBuilder_attr v) [] h)
       = Inr (Str (''['' @ v @ '']''))
   \<and> stringify_result (chain_from (cssSelectorBuilder_pseudoClass v) [] h)
       = Inr (Str ('':'' @ v))
   \<and> stringify_result (chain_from (cssSelectorBuilder_pseudoElement v) [] h)
       = Inr (Str (''::'' @ v))
   \<and> stringify_result
       (chain_from (cssSelectorBuilder_id ''main'')
          [Selector_class ''container'', Selector_class ''editable''] [])
       = Inr (Str ''#main.container.editable'')
   \<and> (\<forall>this'. Selector_element w this = Return this' \<longrightarrow>
         Selector_stringify this' = Str (ToString (Selector_stringify this) @ w))
   \<and> (\<forall>this'. Selector_id w this = Return this' \<longrightarrow>
         Selector_stringify this' = Str (ToString (Selector_stringify this) @ ''#'' @ w))
   \<and> (\<forall>this'. Selector_class w this = Return this' \<longrightarrow>
         Selector_stringify this' = Str (ToString (Selector_stringify this) @ ''.'' @ w))
   \<and> (\<forall>this'. Selector_attr w this = Return this' \<longrightarrow>
         Selector_stringify this'
           = Str (ToString (Selector_stringify this) @ ''['' @ w @ '']''))
   \<and> (\<forall>this'. Selector_pseudoClass w this = Return this' \<longrightarrow>
         Selector_stringify this' = Str (ToString (Selector_stringify this) @ '':'' @ w))
   \<and> (\<forall>this'. Selector_pseudoElement w this = Return this' \<longrightarrow>
         Selector_stringify this' = Str (ToString (Selector_stringify this) @ ''::'' @ w))"
proof -
  note facade_defs = stringify_result_def chain_from_def new_def stringify_def
    Selector_stringify_def Selector_constructor_def
  have f1: "stringify_result (chain_from (cssSelectorBuilder_element v) [] h) = Inr (Str v)"
    by (simp add: facade_defs cssSelectorBuilder_element_def)
  have f2: "stringify_result (chain_from (cssSelectorBuilder_id v) [] h) = Inr (Str (''#'' @ v))"
    by (simp add: facade_defs cssSelectorBuilder_id_def)
  have f3: "stringify_result (chain_from (cssSelectorBuilder_class v) [] h)
              = Inr (Str (''.'' @ v))"
    by (simp add: facade_defs cssSelectorBuilder_class_def)
  have f4: "stringify_result (chain_from (cssSelectorBuilder_attr v) [] h)
              = Inr (Str (''['' @ v @ '']''))"
    by (simp add: facade_defs cssSelectorBuilder_attr_def)
  have f5: "stringify_result (chain_from (cssSelectorBuilder_pseudoClass v) [] h)
              = Inr (Str ('':'' @ v))"
    by (simp add: facade_defs cssSelectorBuilder_pseudoClass_def)
  have f6: "stringify_result (chain_from (cssSelectorBuilder_pseudoElement v) [] h)
              = Inr (Str (''::'' @ v))"
    by (simp add: facade_defs cssSelectorBuilder_pseudoElement_def)
  have example: "stringify_result
       (chain_from (cssSelectorBuilder_id ''main'')
          [Selector_class ''container'', Selector_class ''editable''] [])
       = Inr (Str ''#main.container.editable'')"
    by (simp add: run_defs)
  have m1: "Selector_element w this = Return this' \<Longrightarrow>
         Selector_stringify this' = Str (ToString (Selector_stringify this) @ w)" for this'
    by (auto simp add: Selector_element_def Selector_stringify_def split: if_splits)
  have m2: "Selector_id w this = Return this' \<Longrightarrow>
         Selector_stringify this' = Str (ToString (Selector_stringify this) @ ''#'' @ w)"
    for this'
    by (auto simp add: Selector_id_def Selector_stringify_def Let_def split: if_splits)
  have m3: "Selector_class w this = Return this' \<Longrightarrow>
         Selector_stringify this' = Str (ToString (Selector_stringify this) @ ''.'' @ w)"
    for this'
    by (auto simp add: Selector_class_def Selector_stringify_def split: if_splits)
  have m4: "Selector_attr w this = Return this' \<Longrightarrow>
         Selector_stringify this'
           = Str (ToString (Selector_stringify this) @ ''['' @ w @ '']'')" for this'
    by (auto simp add: Selector_attr_def Selector_stringify_def split: if_splits)
  have m5: "Selector_pseudoClass w this = Return this' \<Longrightarrow>
         Selector_stringify this' = Str (ToString (Selector_stringify this) @ '':'' @ w)"
    for this'
    by (auto simp add: Selector_pseudoClass_def Selector_stringify_def split: if_splits)
  have m6: "Selector_pseudoElement w this = Return this' \<Longrightarrow>
         Selector_stringify this' = Str (ToString (Selector_stringify this) @ ''::'' @ w)"
    for this'
    by (auto simp add: Selector_pseudoElement_def Selector_stringify_def Let_def
        split: if_splits)
  show ?thesis
    using f1 f2 f3 f4 f5 f6 example m1 m2 m3 m4 m5 m6 by blast
qed

text \<open>
  The six instance methods called with \<^verbatim>\<open>'x'\<close> on an object with the text \<^verbatim>\<open>a + b\<close> and no
  kind recorded: each returns, and the text is the old one followed by the fragment.
\<close>

theorem C6_fragments_rendered_witness:
  "Selector_element ''x'' (Selector_constructor (Str ''a + b'') Undefined)
     = Return (Selector_constructor (Str ''a + bx'') Undefined)
   \<and> Selector_stringify (Selector_constructor (Str ''a + bx'') Undefined) = Str ''a + bx''
   \<and> Selector_id ''x'' (Selector_constructor (Str ''a + b'') Undefined)
     = Return ((Selector_constructor (Str ''a + b#x'') Undefined)
                 \<lparr>selectors := {Str ''id'', Undefined}\<rparr>)
   \<and> Selector_stringify ((Selector_constructor (Str ''a + b#x'') Undefined)
                 \<lparr>selectors := {Str ''id'', Undefined}\<rparr>) = Str ''a + b#x''
   \<and> Selector_class ''x'' (Selector_constructor (Str ''a + b'') Undefined)
     = Return (Selector_constructor (Str ''a + b.x'') Undefined)
   \<and> Selector_stringify (Selector_constructor (Str ''a + b.x'') Undefined) = Str ''a + b.x''
   \<and> Selector_attr ''x'' (Selector_constructor (Str ''a + b'') Undefined)
     = Return (Selector_constructor (Str ''a + b[x]'') Undefined)
   \<and> Selector_stringify (Selector_constructor (Str ''a + b[x]'') Undefined) = Str ''a + b[x]''
   \<and> Selector_pseudoClass ''x'' (Selector_constructor (Str ''a + b'') Undefined)
     = Return (Selector_constructor (Str ''a + b:x'') Undefined)
   \<and> Selector_stringify (Selector_constructor (Str ''a + b:x'') Undefined) = Str ''a + b:x''
   \<and> Selector_pseudoElement ''x'' (Selector_constructor (Str ''a + b'') Undefined)
     = Return ((Selector_constructor (Str ''a + b::x'') Undefined)
                 \<lparr>selectors := {Str ''pseudoElement'', Undefined}\<rparr>)
   \<and> Selector_stringify ((Selector_constructor (Str ''a + b::x'') Undefined)
                 \<lparr>selectors := {Str ''pseudoElement'', Undefined}\<rparr>) = Str ''a + b::x''"
  using C6_fragments_rendered
          [of "''v''" "[]" "''x''" "Selector_constructor (Str ''a + b'') Undefined"]
  by (simp add: run_defs)

subsection \<open>Combination\<close>

text \<open>
  C7. For builders \<open>a\<close> and \<open>b\<close> of the store and any combinator \<open>c\<close>, \<^verbatim>\<open>combine(a, c, b)\<close>
  returns a reference to a new object, different from both operands, whose text is
  \<^verbatim>\<open>a.stringify() + ' ' + c + ' ' + b.stringify()\<close>; nothing is trimmed or collapsed, and no
  kind is recorded in the new object. An operand may itself be the result of a
  combination.
\<close>

theorem C7_combine_rendered:
  "a < length h \<Longrightarrow> b < length h \<Longrightarrow> cssSelectorBuilder_combine a c b h = (r, h') \<Longrightarrow>
   r \<noteq> a \<and> r \<noteq> b \<and> r < length h'
   \<and> fst (stringify r h')
       = Str (ToString (fst (stringify a h)) @ '' '' @ c @ '' ''
              @ ToString (fst (stringify b h)))
   \<and> selectors (h' ! r) = {Undefined}"
  by (auto simp add: cssSelectorBuilder_combine_def new_def stringify_def
      Selector_stringify_def Selector_constructor_def)

text \<open>
  \<^verbatim>\<open>combine(element('div').id('main'), '+', element('table').id('data'))\<close>, on the store
  holding the two operands as their chains left them.
\<close>

theorem C7_combine_rendered_witness:
  "(0::nat) < length
      [(Selector_constructor (Str ''div#main'') (Str ''element''))
         \<lparr>selectors := {Str ''id'', Str ''element''}\<rparr>,
       (Selector_constructor (Str ''table#data'') (Str ''element''))
         \<lparr>selectors := {Str ''id'', Str ''element''}\<rparr>]
   \<and> (1::nat) < length
      [(Selector_constructor (Str ''div#main'') (Str ''element''))
         \<lparr>selectors := {Str ''id'', Str ''element''}\<rparr>,
       (Selector_constructor (Str ''table#data'') (Str ''element''))
         \<lparr>selectors := {Str ''id'', Str ''element''}\<rparr>]
   \<and> cssSelectorBuilder_combine 0 ''+'' 1
      [(Selector_constructor (Str ''div#main'') (Str ''element''))
         \<lparr>selectors := {Str ''id'', Str ''element''}\<rparr>,
       (Selector_constructor (Str ''table#data'') (Str ''element''))
         \<lparr>selectors := {Str ''id'', Str ''element''}\<rparr>]
     = (2,
      [(Selector_constructor (Str ''div#main'') (Str ''element''))
         \<lparr>selectors := {Str ''id'', Str ''element''}\<rparr>,
       (Selector_constructor (Str ''table#data'') (Str ''element''))
         \<lparr>selectors := {Str ''id'', Str ''element''}\<rparr>,
       Selector_constructor (Str ''div#main + table#data'') Undefined])
   \<and> fst (stringify 2
      [(Selector_constructor (Str ''div#main'') (Str ''element''))
         \<lparr>selectors := {Str ''id'', Str ''element''}\<rparr>,
       (Selector_constructor (Str ''table#data'') (Str ''element''))
         \<lparr>selectors := {Str ''id'', Str ''element''}\<rparr>,
       Selector_constructor (Str ''div#main + table#data'') Undefined])
     = Str ''div#main + table#data''"
proof -
  let ?h = "[(Selector_constructor (Str ''div#main'') (Str ''element''))
               \<lparr>selectors := {Str ''id'', Str ''element''}\<rparr>,
             (Selector_constructor (Str ''table#data'') (Str ''element''))
               \<lparr>selectors := {Str ''id'', Str ''element''}\<rparr>]"
  let ?h' = "?h @ [Selector_constructor (Str ''div#main + table#data'') Undefined]"
  have a: "0 < length ?h" and b: "1 < length ?h" by simp_all
  have comb: "cssSelectorBuilder_combine 0 ''+'' 1 ?h = (2, ?h')"
    by (simp add: cssSelectorBuilder_combine_def new_def Selector_constructor_def)
  show ?thesis
    using a b comb C7_combine_rendered [OF a b comb]
    by (simp add: stringify_def Selector_stringify_def Selector_constructor_def)
qed

text \<open>The two client expressions in full, from the empty store: the example above, and
  the nested one of the documentation, where the combinator \<^verbatim>\<open>' '\<close> gives three spaces.\<close>

lemma combine_example:
  "(case chain_from (cssSelectorBuilder_element ''div'') [Selector_id ''main''] [] of
      (Inl e, h1) \<Rightarrow> Inl e
    | (Inr a, h1) \<Rightarrow>
   (case chain_from (cssSelectorBuilder_element ''table'') [Selector_id ''data''] h1 of
      (Inl e, h2) \<Rightarrow> Inl e
    | (Inr b, h2) \<Rightarrow>
      stringify_result (chain_from (cssSelectorBuilder_combine a ''+'' b) [] h2)))
   = Inr (Str ''div#main + table#data'')"
  by (simp add: run_defs)

lemma combine_nested_example:
  "(case chain_from (cssSelectorBuilder_element ''div'')
           [Selector_id ''main'', Selector_class ''container'', Selector_class ''draggable''] [] of
      (Inl e, h1) \<Rightarrow> Inl e
    | (Inr a, h1) \<Rightarrow>
   (case chain_from (cssSelectorBuilder_element ''table'') [Selector_id ''data''] h1 of
      (Inl e, h2) \<Rightarrow> Inl e
    | (Inr b, h2) \<Rightarrow>
   (case chain_from (cssSelectorBuilder_element ''tr'')
           [Selector_pseudoClass ''nth-of-type(even)''] h2 of
      (Inl e, h3) \<Rightarrow> Inl e
    | (Inr c, h3) \<Rightarrow>
   (case chain_from (cssSelectorBuilder_element ''td'')
           [Selector_pseudoClass ''nth-of-type(even)''] h3 of
      (Inl e, h4) \<Rightarrow> Inl e
    | (Inr d, h4) \<Rightarrow>
   (case cssSelectorBuilder_combine c '' '' d h4 of (cd, h5) \<Rightarrow>
    case cssSelectorBuilder_combine b ''~'' cd h5 of (bcd, h6) \<Rightarrow>
      stringify_result (chain_from (cssSelectorBuilder_combine a ''+'' bcd) [] h6))))))
   = Inr (Str ''div#main.container.draggable + table#data ~ tr:nth-of-type(even)   td:nth-of-type(even)'')"
  by (simp add: run_defs)

text \<open>
  C8. \<^verbatim>\<open>combine\<close> of the facade leaves its operands as they were: in the store after the
  call, the objects \<open>a\<close> and \<open>b\<close> refer to are the same as before, and \<^verbatim>\<open>stringify()\<close> on
  them returns what it returned before.
\<close>

theorem C8_combine_preserves_operands:
  "a < length h \<Longrightarrow> b < length h \<Longrightarrow>
   snd (cssSelectorBuilder_combine a c b h) ! a = h ! a
   \<and> snd (cssSelectorBuilder_combine a c b h) ! b = h ! b
   \<and> fst (stringify a (snd (cssSelectorBuilder_combine a c b h))) = fst (stringify a h)
   \<and> fst (stringify b (snd (cssSelectorBuilder_combine a c b h))) = fst (stringify b h)"
  by (simp add: cssSelectorBuilder_combine_def new_def stringify_def nth_append)

text \<open>\<^verbatim>\<open>combine(a, '~', b)\<close> with \<^verbatim>\<open>a = element('div')\<close> and \<^verbatim>\<open>b = class('c')\<close>.\<close>

theorem C8_combine_preserves_operands_witness:
  "(0::nat) < length [Selector_constructor (Str ''div'') (Str ''element''),
                      Selector_constructor (Str ''.c'') (Str ''class'')]
   \<and> (1::nat) < length [Selector_constructor (Str ''div'') (Str ''element''),
                      Selector_constructor (Str ''.c'') (Str ''class'')]
   \<and> fst (stringify 0 (snd (cssSelectorBuilder_combine 0 ''~'' 1
        [Selector_constructor (Str ''div'') (Str ''element''),
         Selector_constructor (Str ''.c'') (Str ''class'')]))) = Str ''div''
   \<and> fst (stringify 1 (snd (cssSelectorBuilder_combine 0 ''~'' 1
        [Selector_constructor (Str ''div'') (Str ''element''),
         Selector_constructor (Str ''.c'') (Str ''class'')]))) = Str ''.c''"
proof -
  let ?h = "[Selector_constructor (Str ''div'') (Str ''element''),
             Selector_constructor (Str ''.c'') (Str ''class'')]"
  have a: "0 < length ?h" and b: "1 < length ?h" by simp_all
  show ?thesis
    using C8_combine_preserves_operands [OF a b, of "''~''"]
    by (simp add: stringify_def Selector_stringify_def Selector_constructor_def)
qed

text \<open>
  C9. \<^verbatim>\<open>stringify()\<close> on an instance only reads: the store after the call is the store
  before it, whatever state the instance is in, so a second call, and a call after any
  number \<open>n\<close> of calls, returns the same string as the first.
\<close>

theorem C9_stringify_read_only:
  "snd (stringify r h) = h
   \<and> fst (stringify r (snd (stringify r h))) = fst (stringify r h)
   \<and> ((\<lambda>h'. snd (stringify r h')) ^^ n) h = h
   \<and> fst (stringify r (((\<lambda>h'. snd (stringify r h')) ^^ n) h)) = fst (stringify r h)"
proof -
  have once: "snd (stringify r h') = h'" for h'
    by (simp add: stringify_def)
  have many: "((\<lambda>h'. snd (stringify r h')) ^^ n) h = h"
    by (induction n) (simp_all add: once)
  show ?thesis
  proof (intro conjI)
    show "snd (stringify r h) = h" by (rule once)
    show "fst (stringify r (snd (stringify r h))) = fst (stringify r h)"
      by (simp only: once)
    show "((\<lambda>h'. snd (stringify r h')) ^^ n) h = h" by (rule many)
    show "fst (stringify r (((\<lambda>h'. snd (stringify r h')) ^^ n) h)) = fst (stringify r h)"
      by (simp only: many)
  qed
qed

end
